theory Spec2Isabelle
  imports Main "HOL-Library.Log_Nat"
begin

section \<open>The bootstrap script of source-s3: \<open>v4_main.py\<close>\<close>

text \<open>
  The script has one function, \<open>get_source\<close>, and a driver under
  \<open>if __name__ == "__main__"\<close>. Everything else is imported: the catalog-path
  extraction, the connector class, the message classes, the clock, the traceback
  formatter and the launcher. The imported callables are parameters of the model
  (the record \<open>env\<close>); what the script itself does with them is translated line by
  line. Effects are explicit: a \<open>world\<close> is passed through and returned, and a
  Python exception that leaves a function is the \<open>Inl\<close> branch of its result.
\<close>

subsection \<open>Python exceptions\<close>

text \<open>
  A raised exception object. The script looks at an exception in two ways only:
  the clause \<open>except Exception\<close> tests whether its class derives from
  \<open>Exception\<close> (classes such as \<open>KeyboardInterrupt\<close>, \<open>SystemExit\<close> and
  \<open>GeneratorExit\<close> derive from \<open>BaseException\<close> alone), and
  \<open>traceback.format_exc()\<close> renders it as text. \<open>tb_body\<close> is the rendered stack
  entries followed by the exception line.
\<close>

datatype py_exception = Raised (is_Exception: bool) (tb_body: string)

text \<open>
  \<open>traceback.format_exc()\<close> inside a handler: the header line, then the stack
  entries and the exception line.
\<close>

definition format_exc :: "py_exception \<Rightarrow> string" where
  "format_exc x = ''Traceback (most recent call last):'' @ [CHR 0x0A] @ tb_body x"

subsection \<open>Binary64 numbers\<close>

text \<open>
  A finite Python \<open>float\<close>: the number \<open>mant * 2 ^ expo\<close>. The values of
  \<open>datetime.timestamp()\<close> are finite and below \<open>2 ^ 39\<close> in magnitude (years 1 to
  9999), so neither infinities nor NaN arise in \<open>timestamp() * 1000\<close>.
\<close>

record float64 =
  mant :: int
  expo :: int

definition float_val :: "float64 \<Rightarrow> rat" where
  "float_val f = of_int (mant f) * 2 powi expo f"

text \<open>The numbers of the binary64 format, subnormal ones included.\<close>

definition is_float64 :: "float64 \<Rightarrow> bool" where
  "is_float64 f \<longleftrightarrow> \<bar>mant f\<bar> < 2 ^ 53 \<and> - 1074 \<le> expo f \<and> expo f \<le> 971"

text \<open>
  \<open>round_shift m k\<close> is \<open>m / 2 ^ k\<close> rounded to the nearest integer, a tie going to
  the even neighbour (the IEEE 754 default rounding).
\<close>

definition round_shift :: "int \<Rightarrow> nat \<Rightarrow> int" where
  "round_shift m k =
     (let q = m div 2 ^ k; r = m mod 2 ^ k in
      if 2 * r < 2 ^ k then q
      else if 2 * r > 2 ^ k then q + 1
      else if even q then q else q + 1)"

text \<open>
  The exact number \<open>m * 2 ^ e\<close> rounded to binary64: at most 53 significant bits,
  and no bit below \<open>2 ^ -1074\<close>. A product of a timestamp and 1000 is below
  \<open>2 ^ 49\<close>, far from the overflow threshold \<open>2 ^ 1024\<close>, for which there is no case.
\<close>

definition float_round :: "int \<Rightarrow> int \<Rightarrow> float64" where
  "float_round m e =
     (let k = nat (max (bitlen \<bar>m\<bar> - 53) (- 1074 - e)) in
      \<lparr>mant = round_shift m k, expo = e + int k\<rparr>)"

definition float_mul :: "float64 \<Rightarrow> float64 \<Rightarrow> float64" where
  "float_mul a b = float_round (mant a * mant b) (expo a + expo b)"

text \<open>The conversion of a Python \<open>int\<close> operand of a float operation.\<close>

definition float_of_int :: "int \<Rightarrow> float64" where
  "float_of_int n = float_round n 0"

text \<open>\<open>int(x)\<close> of a finite float: the fraction is dropped, towards zero.\<close>

definition py_int :: "float64 \<Rightarrow> int" where
  "py_int f =
     (if 0 \<le> expo f then mant f * 2 ^ nat (expo f)
      else sgn (mant f) * (\<bar>mant f\<bar> div 2 ^ nat (- expo f)))"

subsection \<open>The trace message\<close>

text \<open>
  Modelled from the spec: the message classes of \<open>airbyte_cdk.models\<close> are not part
  of the script. The fields are those of the record shape given in the spec's data
  model, which are also exactly the keyword arguments the script passes. The
  enumeration members \<open>Type.TRACE\<close> and \<open>TraceType.ERROR\<close> are the strings of that
  shape. Both \<open>msg_type\<close> and \<open>trace_type\<close> are the field \<open>type\<close> of their class
  (two records cannot share a field name).
\<close>

definition Type_TRACE :: string where
  "Type_TRACE = ''TRACE''"

definition TraceType_ERROR :: string where
  "TraceType_ERROR = ''ERROR''"

record AirbyteErrorTraceMessage =
  message :: string
  stack_trace :: string

record AirbyteTraceMessage =
  trace_type :: string
  emitted_at :: int
  error :: AirbyteErrorTraceMessage

record AirbyteMessage =
  msg_type :: string
  trace :: AirbyteTraceMessage

subsection \<open>The imported callables and the world\<close>

text \<open>
  \<open>extract_catalog\<close> is \<open>AirbyteEntrypoint.extract_catalog\<close>: the catalog path, the
  absent value, or an exception. \<open>SourceS3\<close> is the evaluation of
  \<open>SourceS3(SourceS3StreamReader(), Config, catalog_path, cursor_cls=Cursor)\<close> for a
  catalog path: the connector, or an exception. \<open>now_timestamp\<close> is the value of
  \<open>datetime.now().timestamp()\<close>. \<open>json\<close> is the \<open>.json()\<close> method of the message.
\<close>

record 'h env =
  extract_catalog :: "string list \<Rightarrow> py_exception + string option"
  SourceS3 :: "string option \<Rightarrow> py_exception + 'h"
  now_timestamp :: float64
  json :: "AirbyteMessage \<Rightarrow> string"

text \<open>
  The observable effects: the lines \<open>print\<close> wrote to standard output (one entry
  for each call, the text that the newline follows), the catalog paths with which
  the connector constructor was called, and the calls of \<open>launch\<close>, each oldest
  first. The serialiser and \<open>print\<close> are taken to return.
\<close>

record 'h world =
  stdout :: "string list"
  constructed :: "string option list"
  launched :: "('h \<times> string list) list"

definition init_world :: "'h world" where
  "init_world = \<lparr>stdout = [], constructed = [], launched = []\<rparr>"

definition print :: "string \<Rightarrow> 'h world \<Rightarrow> 'h world" where
  "print s w = w\<lparr>stdout := stdout w @ [s]\<rparr>"

subsection \<open>\<open>get_source\<close>\<close>

text \<open>The message built in the handler, from the clock reading and the exception.\<close>

definition error_message :: "float64 \<Rightarrow> py_exception \<Rightarrow> AirbyteMessage" where
  "error_message t x =
     \<lparr>msg_type = Type_TRACE,
      trace = \<lparr>trace_type = TraceType_ERROR,
               emitted_at = py_int (float_mul t (float_of_int 1000)),
               error = \<lparr>message = ''Error starting the sync. This could be due to an invalid configuration or catalog. Please contact Support for assistance.'',
                        stack_trace = format_exc x\<rparr>\<rparr>\<rparr>"

text \<open>
  The call of \<open>extract_catalog\<close> stands before the \<open>try\<close>: its exception leaves
  \<open>get_source\<close>. The constructor call is the body of the \<open>try\<close>; the handler is
  entered for an exception whose class derives from \<open>Exception\<close>, any other one
  leaves \<open>get_source\<close>. The result \<open>Inr None\<close> is \<open>return None\<close>.
\<close>

definition get_source ::
  "'h env \<Rightarrow> string list \<Rightarrow> 'h world \<Rightarrow> (py_exception + 'h option) \<times> 'h world" where
  "get_source env args w =
     (case extract_catalog env args of
        Inl x \<Rightarrow> (Inl x, w)
      | Inr catalog_path \<Rightarrow>
          (let w1 = w\<lparr>constructed := constructed w @ [catalog_path]\<rparr> in
           case SourceS3 env catalog_path of
             Inr source \<Rightarrow> (Inr (Some source), w1)
           | Inl x \<Rightarrow>
               if is_Exception x
               then (Inr None, print (json env (error_message (now_timestamp env) x)) w1)
               else (Inl x, w1)))"

subsection \<open>The driver\<close>

text \<open>
  Modelled from the spec: the class \<open>SourceS3\<close> is not part of the script, and a
  connector is an opaque object of the framework. Such an object is true in
  \<open>if source:\<close> (a class that defines neither \<open>__bool__\<close> nor \<open>__len__\<close> has true
  instances only), and \<open>None\<close> is false.

  \<open>argv\<close> is \<open>sys.argv\<close>; \<open>sys.argv[1:]\<close> is \<open>drop 1 argv\<close>. The call of \<open>launch\<close> is
  recorded; what the launcher does afterwards is not part of the script. An
  exception that leaves \<open>get_source\<close> leaves the script.
\<close>

definition main ::
  "'h env \<Rightarrow> string list \<Rightarrow> 'h world \<Rightarrow> (py_exception + unit) \<times> 'h world" where
  "main env argv w =
     (let args = drop 1 argv in
      case get_source env args w of
        (Inl x, w') \<Rightarrow> (Inl x, w')
      | (Inr None, w') \<Rightarrow> (Inr (), w')
      | (Inr (Some source), w') \<Rightarrow>
          (Inr (), w'\<lparr>launched := launched w' @ [(source, args)]\<rparr>))"

subsection \<open>Scenarios\<close>

text \<open>
  Concrete environments for the scenarios of the spec. The connector of a scenario
  remembers the catalog path it was built from; the catalog path of a scenario is
  the argument that follows \<open>--catalog\<close>; the serialiser of a scenario writes the
  wire shape of the spec's section on external interfaces.
\<close>

datatype connector = Connector "string option"

fun catalog_arg :: "string list \<Rightarrow> string option" where
  "catalog_arg (a # b # rest) = (if a = ''--catalog'' then Some b else catalog_arg (b # rest))"
| "catalog_arg _ = None"

function decimal :: "int \<Rightarrow> string" where
  "decimal n =
     (if n < 10 then [''0123456789'' ! nat n]
      else decimal (n div 10) @ [''0123456789'' ! nat (n mod 10)])"
  by pat_completeness auto
termination
  by (relation "measure nat") auto

declare decimal.simps [simp del]

definition json_int :: "int \<Rightarrow> string" where
  "json_int i = (if i < 0 then CHR ''-'' # decimal (- i) else decimal i)"

definition json_escape :: "char \<Rightarrow> string" where
  "json_escape c =
     (if c = CHR 0x22 then [CHR 0x5C, CHR 0x22]
      else if c = CHR 0x5C then [CHR 0x5C, CHR 0x5C]
      else if c = CHR 0x0A then [CHR 0x5C, CHR ''n'']
      else [c])"

definition json_string :: "string \<Rightarrow> string" where
  "json_string s = [CHR 0x22] @ concat (map json_escape s) @ [CHR 0x22]"

definition render_json :: "AirbyteMessage \<Rightarrow> string" where
  \<open>render_json m =
     ''{"type": '' @ json_string (msg_type m) @
     '', "trace": {"type": '' @ json_string (trace_type (trace m)) @
     '', "emitted_at": '' @ json_int (emitted_at (trace m)) @
     '', "error": {"message": '' @ json_string (message (error (trace m))) @
     '', "stack_trace": '' @ json_string (stack_trace (error (trace m))) @ ''}}}''\<close>

text \<open>The clock of the scenarios reads 1700000000.5 seconds.\<close>

definition scenario_clock :: float64 where
  "scenario_clock = \<lparr>mant = 3400000001, expo = - 1\<rparr>"

text \<open>Every collaborator works.\<close>

definition env_valid :: "connector env" where
  "env_valid =
     \<lparr>extract_catalog = (\<lambda>args. Inr (catalog_arg args)),
      SourceS3 = (\<lambda>p. Inr (Connector p)),
      now_timestamp = scenario_clock,
      json = render_json\<rparr>"

text \<open>The constructor rejects the configuration with an exception of a class under \<open>Exception\<close>.\<close>

definition ValidationError :: py_exception where
  "ValidationError = Raised True ''pydantic.error_wrappers.ValidationError: 1 validation error for Config''"

definition env_invalid_config :: "connector env" where
  "env_invalid_config = env_valid\<lparr>SourceS3 := (\<lambda>p. Inl ValidationError)\<rparr>"

text \<open>The constructor is interrupted from the keyboard.\<close>

definition KeyboardInterrupt :: py_exception where
  "KeyboardInterrupt = Raised False ''KeyboardInterrupt''"

definition env_interrupted :: "connector env" where
  "env_interrupted = env_valid\<lparr>SourceS3 := (\<lambda>p. Inl KeyboardInterrupt)\<rparr>"

text \<open>The constructor ends the process.\<close>

definition SystemExit :: py_exception where
  "SystemExit = Raised False ''SystemExit: 1''"

definition env_exiting :: "connector env" where
  "env_exiting = env_valid\<lparr>SourceS3 := (\<lambda>p. Inl SystemExit)\<rparr>"

text \<open>The catalog-path extraction raises.\<close>

definition ValueError :: py_exception where
  "ValueError = Raised True ''ValueError: unrecognized arguments''"

definition env_bad_arguments :: "connector env" where
  "env_bad_arguments = env_valid\<lparr>extract_catalog := (\<lambda>args. Inl ValueError)\<rparr>"

text \<open>The constructor rejects the catalog \<open>catalog.json\<close> and accepts any other path.\<close>

definition env_invalid_catalog :: "connector env" where
  "env_invalid_catalog =
     env_valid\<lparr>SourceS3 :=
       (\<lambda>p. if p = Some ''catalog.json'' then Inl ValidationError else Inr (Connector p))\<rparr>"

text \<open>The arguments of the spec's scenario with a configuration and a catalog.\<close>

definition scenario_args :: "string list" where
  "scenario_args = [''--config'', ''secrets/config.json'', ''--catalog'', ''catalog.json'']"

section \<open>Properties\<close>

subsection \<open>Auxiliary facts\<close>

lemma get_source_extract_raises:
  "extract_catalog env args = Inl x \<Longrightarrow> get_source env args w = (Inl x, w)"
  by (simp add: get_source_def)

lemma get_source_constructed:
  "extract_catalog env args = Inr p \<Longrightarrow> SourceS3 env p = Inr h \<Longrightarrow>
   get_source env args w = (Inr (Some h), w\<lparr>constructed := constructed w @ [p]\<rparr>)"
  by (simp add: get_source_def)

lemma get_source_handled:
  "extract_catalog env args = Inr p \<Longrightarrow> SourceS3 env p = Inl x \<Longrightarrow> is_Exception x \<Longrightarrow>
   get_source env args w =
     (Inr None, print (json env (error_message (now_timestamp env) x))
                  (w\<lparr>constructed := constructed w @ [p]\<rparr>))"
  by (simp add: get_source_def)

lemma get_source_unhandled:
  "extract_catalog env args = Inr p \<Longrightarrow> SourceS3 env p = Inl x \<Longrightarrow> \<not> is_Exception x \<Longrightarrow>
   get_source env args w = (Inl x, w\<lparr>constructed := constructed w @ [p]\<rparr>)"
  by (simp add: get_source_def)

lemma scenario_catalog: "catalog_arg scenario_args = Some ''catalog.json''"
  by (simp add: scenario_args_def)

text \<open>The line that the scenario with the rejected configuration writes.\<close>

lemma scenario_line:
  \<open>render_json (error_message scenario_clock ValidationError) =
     ''{"type": "TRACE", "trace": {"type": "ERROR", "emitted_at": 1700000000500, "error": {"message": "Error starting the sync. This could be due to an invalid configuration or catalog. Please contact Support for assistance.", "stack_trace": "Traceback (most recent call last):'' @ [CHR 0x5C] @ ''npydantic.error_wrappers.ValidationError: 1 validation error for Config"}}}''\<close>
  by code_simp

lemma get_source_None_cases:
  assumes "fst (get_source env args w) = Inr None"
  shows "\<exists>p x. extract_catalog env args = Inr p \<and> SourceS3 env p = Inl x \<and> is_Exception x"
proof (cases "extract_catalog env args")
  case (Inl x)
  with assms show ?thesis by (simp add: get_source_extract_raises)
next
  case p: (Inr p)
  show ?thesis
  proof (cases "SourceS3 env p")
    case (Inr h)
    with p assms show ?thesis by (simp add: get_source_constructed)
  next
    case (Inl x)
    with p assms show ?thesis
      by (cases "is_Exception x") (simp_all add: get_source_unhandled)
  qed
qed

lemma error_message_fields:
  "error_message t x =
     \<lparr>msg_type = ''TRACE'',
      trace = \<lparr>trace_type = ''ERROR'',
               emitted_at = py_int (float_mul t (float_of_int 1000)),
               error = \<lparr>message = ''Error starting the sync. This could be due to an invalid configuration or catalog. Please contact Support for assistance.'',
                        stack_trace = format_exc x\<rparr>\<rparr>\<rparr>"
  by (simp add: error_message_def Type_TRACE_def TraceType_ERROR_def)

lemma get_source_written:
  assumes "stdout (snd (get_source env args w)) = stdout w @ ls" and "l \<in> set ls"
  shows "\<exists>x. l = json env (error_message (now_timestamp env) x)"
proof (cases "extract_catalog env args")
  case (Inl x)
  with assms show ?thesis by (simp add: get_source_extract_raises)
next
  case p: (Inr p)
  show ?thesis
  proof (cases "SourceS3 env p")
    case (Inr h)
    with p assms show ?thesis by (simp add: get_source_constructed)
  next
    case (Inl x)
    show ?thesis
    proof (cases "is_Exception x")
      case True
      with p Inl assms have "l = json env (error_message (now_timestamp env) x)"
        by (auto simp: get_source_handled print_def)
      then show ?thesis by blast
    next
      case False
      with p Inl assms show ?thesis by (simp add: get_source_unhandled)
    qed
  qed
qed

subsection \<open>Rounding and truncation\<close>

lemma round_shift_nonneg: "0 \<le> m \<Longrightarrow> 0 \<le> round_shift m k"
  by (simp add: round_shift_def Let_def pos_imp_zdiv_nonneg_iff)

lemma round_shift_error: "\<bar>2 * (round_shift m k * 2 ^ k - m)\<bar> \<le> 2 ^ k"
proof -
  define q where "q = m div 2 ^ k"
  define r where "r = m mod 2 ^ k"
  have m: "m = q * 2 ^ k + r" by (simp add: q_def r_def div_mult_mod_eq)
  have r: "0 \<le> r" "r < 2 ^ k" by (simp_all add: r_def)
  show ?thesis
    unfolding round_shift_def Let_def q_def [symmetric] r_def [symmetric]
    using r by (auto simp: m algebra_simps)
qed

lemma round_shift_0: "round_shift m 0 = m"
  by (simp add: round_shift_def)

lemma float_of_int_1000: "float_of_int 1000 = \<lparr>mant = 1000, expo = 0\<rparr>"
proof -
  have "bitlen 1000 = 10" by code_simp
  then show ?thesis
    by (simp add: float_of_int_def float_round_def round_shift_def)
qed

lemma py_int_floor:
  assumes "0 \<le> mant f" shows "py_int f = \<lfloor>float_val f\<rfloor>"
proof (cases "0 \<le> expo f")
  case True
  then have "2 powi expo f = (2::rat) ^ nat (expo f)"
    by (simp add: power_int_def)
  then have "float_val f = of_int (mant f * 2 ^ nat (expo f))"
    by (simp add: float_val_def)
  then show ?thesis using True by (simp add: py_int_def del: of_int_mult)
next
  case False
  then have "2 powi expo f = 1 / (2::rat) ^ nat (- expo f)"
    by (simp add: power_int_def field_simps)
  then have "float_val f = of_int (mant f) / of_int (2 ^ nat (- expo f))"
    by (simp add: float_val_def)
  then have "\<lfloor>float_val f\<rfloor> = mant f div 2 ^ nat (- expo f)"
    by (simp only: floor_divide_of_int_eq)
  with False assms show ?thesis
    by (cases "mant f = 0") (simp_all add: py_int_def)
qed

lemma float_val_round:
  "float_val (float_round m e) =
     of_int (round_shift m (nat (max (bitlen \<bar>m\<bar> - 53) (- 1074 - e)))
               * 2 ^ nat (max (bitlen \<bar>m\<bar> - 53) (- 1074 - e))) * 2 powi e"
proof -
  define k where "k = nat (max (bitlen \<bar>m\<bar> - 53) (- 1074 - e))"
  have "float_val (float_round m e) = of_int (round_shift m k) * 2 powi (e + int k)"
    by (simp add: float_val_def float_round_def Let_def k_def)
  also have "(2::rat) powi (e + int k) = 2 powi e * 2 ^ k"
    by (simp add: power_int_add)
  finally show ?thesis
    unfolding k_def by simp
qed

lemma float_round_nonneg: "0 \<le> m \<Longrightarrow> 0 \<le> mant (float_round m e)"
  by (simp add: float_round_def Let_def round_shift_nonneg)

lemma float_round_error:
  assumes "- 1074 \<le> e"
  shows "\<bar>float_val (float_round m e) - of_int m * 2 powi e\<bar> * 2 ^ 53 \<le> \<bar>of_int m * 2 powi e\<bar>"
proof -
  define k where "k = nat (bitlen \<bar>m\<bar> - 53)"
  have k: "nat (max (bitlen \<bar>m\<bar> - 53) (- 1074 - e)) = k"
    using assms by (simp add: k_def max_def)
  define d where "d = round_shift m k * 2 ^ k - m"
  have d: "\<bar>d\<bar> * 2 ^ 53 \<le> \<bar>m\<bar>"
  proof (cases "k = 0")
    case True
    then show ?thesis by (simp add: d_def round_shift_0)
  next
    case False
    then have b: "bitlen \<bar>m\<bar> = int k + 53" by (simp add: k_def)
    then have "0 < \<bar>m\<bar>" using bitlen_eq_zero_iff [of "\<bar>m\<bar>"] by auto
    from bitlen_bounds [OF this] b have "2 ^ nat (52 + int k) \<le> \<bar>m\<bar>" by simp
    moreover have "nat (52 + int k) = k + 52" by simp
    ultimately have lo: "(2::int) ^ (k + 52) \<le> \<bar>m\<bar>" by simp
    from False obtain j where j: "k = Suc j" by (cases k) auto
    have "\<bar>2 * d\<bar> \<le> 2 ^ k" unfolding d_def by (rule round_shift_error)
    then have "\<bar>d\<bar> \<le> 2 ^ j" by (simp add: j abs_mult)
    then have "\<bar>d\<bar> * 2 ^ 53 \<le> 2 ^ j * 2 ^ 53" by (rule mult_right_mono) simp
    also have "\<dots> = 2 ^ (k + 52)" by (simp add: j power_add)
    finally show ?thesis using lo by simp
  qed
  have p: "(0::rat) < 2 powi e" by (simp add: power_int_def)
  have "float_val (float_round m e) - of_int m * 2 powi e = of_int d * 2 powi e"
    unfolding float_val_round k d_def by (simp add: algebra_simps)
  then have "\<bar>float_val (float_round m e) - of_int m * 2 powi e\<bar> * 2 ^ 53
      = of_int (\<bar>d\<bar> * 2 ^ 53) * 2 powi e"
    using p by (simp add: abs_mult)
  also have "\<dots> \<le> of_int \<bar>m\<bar> * 2 powi e"
    using d p by (intro mult_right_mono) (simp_all only: of_int_le_iff less_imp_le)
  also have "\<dots> = \<bar>of_int m * 2 powi e\<bar>"
    using p by (simp add: abs_mult)
  finally show ?thesis .
qed

lemma float_mul_1000:
  "float_mul t (float_of_int 1000) = float_round (mant t * 1000) (expo t)"
  by (simp add: float_mul_def float_of_int_1000)

lemma float_val_nonneg_iff: "0 \<le> float_val f \<longleftrightarrow> 0 \<le> mant f"
proof -
  have "\<not> (2::rat) powi expo f \<le> 0" by (simp add: not_le)
  then show ?thesis by (simp add: float_val_def zero_le_mult_iff)
qed

lemma epoch_millis:
  assumes "is_float64 t" and "0 \<le> float_val t"
  shows "py_int (float_mul t (float_of_int 1000))
           = \<lfloor>float_val (float_mul t (float_of_int 1000))\<rfloor>"
    and "0 \<le> py_int (float_mul t (float_of_int 1000))"
    and "\<bar>of_int (py_int (float_mul t (float_of_int 1000))) - 1000 * float_val t\<bar>
           < 1 + 1000 * float_val t / 2 ^ 53"
proof -
  let ?r = "float_round (mant t * 1000) (expo t)"
  from assms(2) have m: "0 \<le> mant t * 1000" by (simp add: float_val_nonneg_iff)
  then have r: "0 \<le> mant ?r" by (rule float_round_nonneg)
  then have fl: "py_int ?r = \<lfloor>float_val ?r\<rfloor>" by (rule py_int_floor)
  from r have v: "0 \<le> float_val ?r" by (simp add: float_val_nonneg_iff)
  show "py_int (float_mul t (float_of_int 1000))
          = \<lfloor>float_val (float_mul t (float_of_int 1000))\<rfloor>"
    using fl by (simp add: float_mul_1000)
  show "0 \<le> py_int (float_mul t (float_of_int 1000))"
    using fl v by (simp add: float_mul_1000)
  have p: "of_int (mant t * 1000) * 2 powi expo t = 1000 * float_val t"
    by (simp add: float_val_def)
  from assms(1) have "- 1074 \<le> expo t" by (simp add: is_float64_def)
  from float_round_error [OF this, of "mant t * 1000"]
  have "\<bar>float_val ?r - 1000 * float_val t\<bar> * 2 ^ 53 \<le> \<bar>1000 * float_val t\<bar>"
    unfolding p .
  with assms(2) have e: "\<bar>float_val ?r - 1000 * float_val t\<bar> \<le> 1000 * float_val t / 2 ^ 53"
    by (simp add: field_simps)
  have "of_int \<lfloor>float_val ?r\<rfloor> \<le> float_val ?r"
    and "float_val ?r < of_int \<lfloor>float_val ?r\<rfloor> + 1"
    by linarith+
  with e have "\<bar>of_int \<lfloor>float_val ?r\<rfloor> - 1000 * float_val t\<bar>
      < 1 + 1000 * float_val t / 2 ^ 53"
    by linarith
  then show "\<bar>of_int (py_int (float_mul t (float_of_int 1000))) - 1000 * float_val t\<bar>
           < 1 + 1000 * float_val t / 2 ^ 53"
    using fl by (simp add: float_mul_1000)
qed

subsection \<open>The success path\<close>

text \<open>
  C5. When the catalog-path extraction returns and the constructor returns a
  connector for the extracted path, \<open>get_source\<close> returns that connector, and
  standard output and the launcher are left as they were.
\<close>

theorem get_source_success:
  assumes "extract_catalog env args = Inr p" and "SourceS3 env p = Inr h"
  shows "fst (get_source env args w) = Inr (Some h)
         \<and> stdout (snd (get_source env args w)) = stdout w
         \<and> launched (snd (get_source env args w)) = launched w"
  using assms by (simp add: get_source_def)

theorem get_source_success_witness:
  "fst (get_source env_valid scenario_args init_world) = Inr (Some (Connector (Some ''catalog.json'')))
   \<and> stdout (snd (get_source env_valid scenario_args init_world)) = []"
  using get_source_success [of env_valid scenario_args "Some ''catalog.json''"
      "Connector (Some ''catalog.json'')" init_world]
  by (simp add: env_valid_def scenario_catalog init_world_def)

text \<open>
  C4. When \<open>get_source\<close> returns a connector, the driver calls \<open>launch\<close> exactly
  once, with that connector and with \<open>sys.argv[1:]\<close> as it is.
\<close>

theorem main_launches_once:
  assumes "fst (get_source env (drop 1 argv) w) = Inr (Some h)"
  shows "fst (main env argv w) = Inr ()
         \<and> launched (snd (main env argv w)) = launched w @ [(h, drop 1 argv)]"
proof -
  obtain r w' where g: "get_source env (drop 1 argv) w = (r, w')"
    by (cases "get_source env (drop 1 argv) w")
  with assms have r: "r = Inr (Some h)" by simp
  have "launched w' = launched w"
    using g r by (auto simp: get_source_def print_def Let_def split: sum.splits if_splits)
  then show ?thesis
    using g r by (simp add: main_def)
qed

theorem main_launches_once_witness:
  "launched (snd (main env_valid (''v4_main.py'' # scenario_args) init_world))
     = [(Connector (Some ''catalog.json''), scenario_args)]"
  using main_launches_once [of env_valid "''v4_main.py'' # scenario_args" init_world
      "Connector (Some ''catalog.json'')"]
  by (simp add: get_source_def env_valid_def scenario_catalog init_world_def)

subsection \<open>The failure path\<close>

text \<open>
  C1, as amended. When the constructor raises an exception whose class derives
  from \<open>Exception\<close>, \<open>get_source\<close> catches it: it returns \<open>None\<close>, no exception
  leaves it, and exactly one line is written to standard output, the serialised
  error record, whose \<open>emitted_at\<close> is \<open>int(datetime.now().timestamp() * 1000)\<close> and
  whose \<open>stack_trace\<close> is the text of \<open>traceback.format_exc()\<close>.
\<close>

theorem get_source_catches_Exception:
  assumes "extract_catalog env args = Inr p" and "SourceS3 env p = Inl x"
    and "is_Exception x"
  shows "fst (get_source env args w) = Inr None
         \<and> stdout (snd (get_source env args w)) = stdout w @
             [json env
               \<lparr>msg_type = ''TRACE'',
                trace = \<lparr>trace_type = ''ERROR'',
                         emitted_at = py_int (float_mul (now_timestamp env) (float_of_int 1000)),
                         error = \<lparr>message = ''Error starting the sync. This could be due to an invalid configuration or catalog. Please contact Support for assistance.'',
                                  stack_trace = format_exc x\<rparr>\<rparr>\<rparr>]"
  using assms by (simp add: get_source_def print_def error_message_fields)

theorem get_source_catches_Exception_witness:
  "fst (get_source env_invalid_config scenario_args init_world) = Inr None
   \<and> stdout (snd (get_source env_invalid_config scenario_args init_world))
       = [render_json (error_message scenario_clock ValidationError)]"
  using get_source_catches_Exception [of env_invalid_config scenario_args
      "Some ''catalog.json''" ValidationError init_world]
  by (simp add: env_invalid_config_def env_valid_def scenario_catalog ValidationError_def
      init_world_def error_message_fields)

text \<open>
  The claim C1 as written, for a failure of any kind, does not hold: the handler
  is \<open>except Exception\<close>, and a \<open>KeyboardInterrupt\<close> raised in the constructor
  leaves \<open>get_source\<close> with nothing written.
\<close>

theorem get_source_KeyboardInterrupt_propagates:
  "fst (get_source env_interrupted scenario_args init_world) = Inl KeyboardInterrupt
   \<and> stdout (snd (get_source env_interrupted scenario_args init_world)) = []"
  by (simp add: get_source_def env_interrupted_def env_valid_def scenario_catalog
      KeyboardInterrupt_def init_world_def)

text \<open>
  C2. Every line that \<open>get_source\<close> writes to standard output is the serialisation
  of a record of the shape
  \<open>{type: "TRACE", trace: {type: "ERROR", emitted_at: int, error: {message, stack_trace}}}\<close>
  whose \<open>message\<close> is the fixed text.
\<close>

theorem error_record_shape:
  assumes "stdout (snd (get_source env args w)) = stdout w @ ls" and "l \<in> set ls"
  shows "\<exists>ts st. l = json env
           \<lparr>msg_type = ''TRACE'',
             trace = \<lparr>trace_type = ''ERROR'',
                      emitted_at = ts,
                      error = \<lparr>message = ''Error starting the sync. This could be due to an invalid configuration or catalog. Please contact Support for assistance.'',
                               stack_trace = st\<rparr>\<rparr>\<rparr>"
proof -
  from get_source_written [OF assms] obtain x where
    "l = json env (error_message (now_timestamp env) x)" ..
  then show ?thesis unfolding error_message_fields by blast
qed

theorem error_record_shape_witness:
  "stdout (snd (get_source env_invalid_config scenario_args init_world))
     = [render_json (error_message scenario_clock ValidationError)]
   \<and> (\<exists>ts st. render_json (error_message scenario_clock ValidationError) = render_json
           \<lparr>msg_type = ''TRACE'',
             trace = \<lparr>trace_type = ''ERROR'',
                      emitted_at = ts,
                      error = \<lparr>message = ''Error starting the sync. This could be due to an invalid configuration or catalog. Please contact Support for assistance.'',
                               stack_trace = st\<rparr>\<rparr>\<rparr>)"
proof -
  let ?l = "render_json (error_message scenario_clock ValidationError)"
  have h1: "stdout (snd (get_source env_invalid_config scenario_args init_world))
              = stdout (init_world :: connector world) @ [?l]"
    by (simp add: get_source_def env_invalid_config_def env_valid_def scenario_catalog
        ValidationError_def init_world_def print_def)
  have h2: "?l \<in> set [?l]" by simp
  have "json env_invalid_config = render_json"
    by (simp add: env_invalid_config_def env_valid_def)
  with error_record_shape [OF h1 h2] h1 show ?thesis
    by (simp add: init_world_def)
qed

text \<open>
  C3, as amended. For any argument list for which the catalog-path extraction
  returns (a path or the absent value) and the constructor then raises an exception
  whose class derives from \<open>Exception\<close>, \<open>get_source\<close> returns \<open>None\<close> and exactly
  one line is written to standard output: the serialised error record with the
  fixed message text and a stack-trace string that is not empty.
\<close>

theorem get_source_failure_contract:
  assumes "extract_catalog env args = Inr p" and "SourceS3 env p = Inl x"
    and "is_Exception x"
  shows "fst (get_source env args w) = Inr None
         \<and> stdout (snd (get_source env args w)) = stdout w @
             [json env
               \<lparr>msg_type = ''TRACE'',
                trace = \<lparr>trace_type = ''ERROR'',
                         emitted_at = py_int (float_mul (now_timestamp env) (float_of_int 1000)),
                         error = \<lparr>message = ''Error starting the sync. This could be due to an invalid configuration or catalog. Please contact Support for assistance.'',
                                  stack_trace = format_exc x\<rparr>\<rparr>\<rparr>]
         \<and> format_exc x \<noteq> []"
proof -
  have "format_exc x \<noteq> []" by (simp add: format_exc_def)
  moreover have "get_source env args w =
      (Inr None,
       w\<lparr>stdout := stdout w @ [json env (error_message (now_timestamp env) x)],
         constructed := constructed w @ [p]\<rparr>)"
    using assms by (simp add: get_source_def print_def)
  ultimately show ?thesis unfolding error_message_fields by simp
qed

theorem get_source_failure_contract_witness:
  "fst (get_source env_invalid_config [''check'', ''--config'', ''secrets/config.json''] init_world)
     = Inr None
   \<and> stdout (snd (get_source env_invalid_config [''check'', ''--config'', ''secrets/config.json'']
                     init_world))
       = [render_json
           \<lparr>msg_type = ''TRACE'',
            trace = \<lparr>trace_type = ''ERROR'',
                     emitted_at = py_int (float_mul scenario_clock (float_of_int 1000)),
                     error = \<lparr>message = ''Error starting the sync. This could be due to an invalid configuration or catalog. Please contact Support for assistance.'',
                              stack_trace = format_exc ValidationError\<rparr>\<rparr>\<rparr>]
   \<and> format_exc ValidationError \<noteq> []"
  using get_source_failure_contract [of env_invalid_config
      "[''check'', ''--config'', ''secrets/config.json'']" None ValidationError init_world]
  by (simp add: env_invalid_config_def env_valid_def ValidationError_def init_world_def)

text \<open>
  The claim C3 as written does not hold. The call of \<open>extract_catalog\<close> stands
  before the \<open>try\<close>: when it raises, the exception leaves \<open>get_source\<close> and nothing
  is written. An argument list without a catalog path does not make \<open>get_source\<close>
  fail by itself: when the constructor accepts the absent path, the connector is
  returned and nothing is written. And a constructor that throws a
  \<open>KeyboardInterrupt\<close> is not caught by \<open>except Exception\<close>.
\<close>

theorem get_source_extraction_failure_propagates:
  "fst (get_source env_bad_arguments scenario_args init_world) = Inl ValueError
   \<and> stdout (snd (get_source env_bad_arguments scenario_args init_world)) = []
   \<and> fst (get_source env_valid [''check'', ''--config'', ''secrets/config.json''] init_world)
       = Inr (Some (Connector None))
   \<and> stdout (snd (get_source env_valid [''check'', ''--config'', ''secrets/config.json''] init_world))
       = []
   \<and> fst (get_source env_interrupted [''check'', ''--config'', ''secrets/config.json''] init_world)
       = Inl KeyboardInterrupt
   \<and> stdout (snd (get_source env_interrupted [''check'', ''--config'', ''secrets/config.json'']
                     init_world))
       = []"
  by (simp add: get_source_def env_bad_arguments_def env_interrupted_def env_valid_def
      KeyboardInterrupt_def init_world_def)

text \<open>
  C8, as amended. For the empty argument list nothing is validated and nothing is
  cut short: when the catalog-path extraction yields no path, the constructor is
  still called, with the absent path, and when it raises an exception whose class
  derives from \<open>Exception\<close> the contract of the failure path holds: \<open>None\<close> is
  returned and the one error record is written.
\<close>

theorem get_source_empty_args:
  assumes "extract_catalog env [] = Inr None"
  shows "constructed (snd (get_source env [] w)) = constructed w @ [None]
         \<and> (\<forall>x. SourceS3 env None = Inl x \<and> is_Exception x \<longrightarrow>
               fst (get_source env [] w) = Inr None
               \<and> stdout (snd (get_source env [] w)) = stdout w @
                   [json env
                     \<lparr>msg_type = ''TRACE'',
                      trace = \<lparr>trace_type = ''ERROR'',
                               emitted_at = py_int (float_mul (now_timestamp env) (float_of_int 1000)),
                               error = \<lparr>message = ''Error starting the sync. This could be due to an invalid configuration or catalog. Please contact Support for assistance.'',
                                        stack_trace = format_exc x\<rparr>\<rparr>\<rparr>])"
proof -
  have "constructed (snd (get_source env [] w)) = constructed w @ [None]"
    using assms by (simp add: get_source_def print_def Let_def split: sum.splits)
  moreover have "fst (get_source env [] w) = Inr None
      \<and> stdout (snd (get_source env [] w))
          = stdout w @ [json env (error_message (now_timestamp env) x)]"
    if "SourceS3 env None = Inl x" and "is_Exception x" for x
    using assms that by (simp add: get_source_def print_def)
  ultimately show ?thesis unfolding error_message_fields by blast
qed

theorem get_source_empty_args_witness:
  "constructed (snd (get_source env_invalid_config [] init_world)) = [None]
   \<and> fst (get_source env_invalid_config [] init_world) = Inr None
   \<and> length (stdout (snd (get_source env_invalid_config [] init_world))) = 1"
proof -
  have h: "extract_catalog env_invalid_config [] = Inr None"
    by (simp add: env_invalid_config_def env_valid_def)
  have "SourceS3 env_invalid_config None = Inl ValidationError \<and> is_Exception ValidationError"
    by (simp add: env_invalid_config_def env_valid_def ValidationError_def)
  with get_source_empty_args [OF h, of init_world] show ?thesis
    by (simp add: init_world_def)
qed

text \<open>
  The claim C8 as written, for any resulting failure, does not hold: with the empty
  argument list and no catalog path, a \<open>SystemExit\<close> raised in the constructor
  leaves \<open>get_source\<close> and nothing is written.
\<close>

theorem get_source_empty_args_SystemExit_propagates:
  "fst (get_source env_exiting [] init_world) = Inl SystemExit
   \<and> constructed (snd (get_source env_exiting [] init_world)) = [None]
   \<and> stdout (snd (get_source env_exiting [] init_world)) = []"
  by (simp add: get_source_def env_exiting_def env_valid_def SystemExit_def init_world_def)

subsection \<open>The driver without a connector\<close>

text \<open>
  C6. When \<open>get_source\<close> returns \<open>None\<close>, the driver ends without an exception,
  \<open>launch\<close> is not called, and the error record, with the fixed message text, is
  the one line that has been written.
\<close>

theorem main_no_launch_without_source:
  assumes "fst (get_source env (drop 1 argv) w) = Inr None"
  shows "fst (main env argv w) = Inr ()
         \<and> launched (snd (main env argv w)) = launched w
         \<and> (\<exists>m. stdout (snd (main env argv w)) = stdout w @ [json env m]
                \<and> message (error (trace m)) = ''Error starting the sync. This could be due to an invalid configuration or catalog. Please contact Support for assistance.'')"
proof -
  from get_source_None_cases [OF assms] obtain p x where
    "extract_catalog env (drop 1 argv) = Inr p" and "SourceS3 env p = Inl x"
    and "is_Exception x"
    by blast
  then have
    g: "get_source env (drop 1 argv) w =
          (Inr None, print (json env (error_message (now_timestamp env) x))
                       (w\<lparr>constructed := constructed w @ [p]\<rparr>))"
    by (rule get_source_handled)
  have "message (error (trace (error_message (now_timestamp env) x))) = ''Error starting the sync. This could be due to an invalid configuration or catalog. Please contact Support for assistance.''"
    by (simp add: error_message_def)
  with g show ?thesis
    by (auto simp: main_def print_def)
qed

theorem main_no_launch_without_source_witness:
  "fst (main env_invalid_config (''v4_main.py'' # scenario_args) init_world) = Inr ()
   \<and> launched (snd (main env_invalid_config (''v4_main.py'' # scenario_args) init_world)) = []
   \<and> length (stdout (snd (main env_invalid_config (''v4_main.py'' # scenario_args) init_world))) = 1"
proof -
  have h: "fst (get_source env_invalid_config (drop 1 (''v4_main.py'' # scenario_args))
                  (init_world :: connector world)) = Inr None"
    by (simp add: get_source_def env_invalid_config_def env_valid_def scenario_catalog
        ValidationError_def)
  from main_no_launch_without_source [OF h] show ?thesis
    by (auto simp: init_world_def)
qed

subsection \<open>At most one construction, at most one message\<close>

text \<open>
  C9. On every path through \<open>get_source\<close> and through the driver, the connector
  constructor is called at most once and at most one line is written to standard
  output.
\<close>

theorem at_most_one_construction_and_message:
  "(\<exists>cs ls. constructed (snd (get_source env args w)) = constructed w @ cs \<and> length cs \<le> 1
            \<and> stdout (snd (get_source env args w)) = stdout w @ ls \<and> length ls \<le> 1)
   \<and> (\<exists>cs ls. constructed (snd (main env argv w)) = constructed w @ cs \<and> length cs \<le> 1
            \<and> stdout (snd (main env argv w)) = stdout w @ ls \<and> length ls \<le> 1)"
proof -
  have g: "\<exists>cs ls. constructed (snd (get_source env a w)) = constructed w @ cs \<and> length cs \<le> 1
            \<and> stdout (snd (get_source env a w)) = stdout w @ ls \<and> length ls \<le> 1" for a
  proof (cases "extract_catalog env a")
    case (Inl x)
    then show ?thesis by (simp add: get_source_extract_raises)
  next
    case p: (Inr p)
    show ?thesis
    proof (cases "SourceS3 env p")
      case (Inr h)
      with p show ?thesis by (simp add: get_source_constructed)
    next
      case (Inl x)
      with p show ?thesis
        by (cases "is_Exception x")
           (simp_all add: get_source_handled get_source_unhandled print_def)
    qed
  qed
  have m: "constructed (snd (main env argv w)) = constructed (snd (get_source env (drop 1 argv) w))
           \<and> stdout (snd (main env argv w)) = stdout (snd (get_source env (drop 1 argv) w))"
    by (cases "get_source env (drop 1 argv) w")
       (auto simp: main_def split: sum.splits option.splits)
  from g [of args] g [of "drop 1 argv"] m show ?thesis by simp
qed

subsection \<open>Determinism\<close>

text \<open>
  C10. Two runs of \<open>get_source\<close> on the same argument list and from the same
  world, in which the clock reads the same, the serialiser is the same, and the
  catalog-path extraction and the constructor have the same outcome (the same
  value, or the same exception), return the same result and leave the same world,
  standard output included.
\<close>

theorem get_source_deterministic:
  assumes "extract_catalog e1 args = extract_catalog e2 args"
    and "\<And>p. extract_catalog e1 args = Inr p \<Longrightarrow> SourceS3 e1 p = SourceS3 e2 p"
    and "now_timestamp e1 = now_timestamp e2"
    and "json e1 = json e2"
  shows "get_source e1 args w = get_source e2 args w"
proof (cases "extract_catalog e1 args")
  case (Inl x)
  with assms(1) have "extract_catalog e2 args = Inl x" by simp
  with Inl show ?thesis by (simp add: get_source_extract_raises)
next
  case (Inr p)
  with assms(1) have p2: "extract_catalog e2 args = Inr p" by simp
  from Inr assms(2) have c: "SourceS3 e1 p = SourceS3 e2 p" by simp
  show ?thesis
  proof (cases "SourceS3 e1 p")
    case h: (Inr h)
    with c have "SourceS3 e2 p = Inr h" by simp
    with Inr p2 h show ?thesis by (simp add: get_source_constructed)
  next
    case x: (Inl x)
    with c have x2: "SourceS3 e2 p = Inl x" by simp
    show ?thesis
    proof (cases "is_Exception x")
      case True
      with Inr p2 x x2 assms(3,4) show ?thesis by (simp add: get_source_handled)
    next
      case False
      with Inr p2 x x2 show ?thesis by (simp add: get_source_unhandled)
    qed
  qed
qed

theorem get_source_deterministic_witness:
  "get_source env_invalid_config scenario_args init_world
     = get_source env_invalid_catalog scenario_args init_world"
  using get_source_deterministic [of env_invalid_config scenario_args env_invalid_catalog
      init_world]
  by (simp add: env_invalid_config_def env_invalid_catalog_def env_valid_def scenario_catalog)

subsection \<open>The timestamp\<close>

text \<open>
  C7. Let the clock read \<open>t\<close> seconds, a binary64 number at or after the epoch.
  Then in every error record that \<open>get_source\<close> writes, \<open>emitted_at\<close> is the integer
  part of the binary64 product \<open>t * 1000\<close>, it is not negative, and it differs from
  the exact number of milliseconds \<open>1000 t\<close> by less than one millisecond plus the
  rounding error of the product, which is at most \<open>1000 t / 2 ^ 53\<close>.
\<close>

theorem emitted_at_epoch_millis:
  assumes "stdout (snd (get_source env args w)) = stdout w @ ls" and "l \<in> set ls"
    and "is_float64 (now_timestamp env)" and "0 \<le> float_val (now_timestamp env)"
  shows "\<exists>m. l = json env m
           \<and> emitted_at (trace m)
               = \<lfloor>float_val (float_mul (now_timestamp env) (float_of_int 1000))\<rfloor>
           \<and> 0 \<le> emitted_at (trace m)
           \<and> \<bar>of_int (emitted_at (trace m)) - 1000 * float_val (now_timestamp env)\<bar>
               < 1 + 1000 * float_val (now_timestamp env) / 2 ^ 53"
proof -
  from get_source_written [OF assms(1,2)] obtain x where
    l: "l = json env (error_message (now_timestamp env) x)" ..
  have "emitted_at (trace (error_message (now_timestamp env) x))
          = py_int (float_mul (now_timestamp env) (float_of_int 1000))"
    by (simp add: error_message_def)
  with epoch_millis [OF assms(3,4)] l show ?thesis by metis
qed

theorem emitted_at_epoch_millis_witness:
  "stdout (snd (get_source env_invalid_config scenario_args init_world))
     = [render_json (error_message scenario_clock ValidationError)]
   \<and> float_val scenario_clock = 3400000001 / 2
   \<and> (\<exists>m. render_json (error_message scenario_clock ValidationError) = render_json m
          \<and> emitted_at (trace m) = 1700000000500)"
proof -
  let ?l = "render_json (error_message scenario_clock ValidationError)"
  have h1: "stdout (snd (get_source env_invalid_config scenario_args init_world))
              = stdout (init_world :: connector world) @ [?l]"
    by (simp add: get_source_def env_invalid_config_def env_valid_def scenario_catalog
        ValidationError_def init_world_def print_def)
  have h2: "?l \<in> set [?l]" by simp
  have t: "now_timestamp env_invalid_config = scenario_clock"
    and j: "json env_invalid_config = render_json"
    by (simp_all add: env_invalid_config_def env_valid_def)
  have h3: "is_float64 (now_timestamp env_invalid_config)"
    by (simp add: t is_float64_def scenario_clock_def)
  have v: "float_val scenario_clock = 3400000001 / 2"
    by (simp add: float_val_def scenario_clock_def)
  then have h4: "0 \<le> float_val (now_timestamp env_invalid_config)"
    by (simp add: t)
  have "bitlen 3400000001000 = 42" by code_simp
  then have "float_mul scenario_clock (float_of_int 1000) = \<lparr>mant = 3400000001000, expo = - 1\<rparr>"
    by (simp add: float_mul_1000 scenario_clock_def float_round_def round_shift_def)
  then have "\<lfloor>float_val (float_mul scenario_clock (float_of_int 1000))\<rfloor> = 1700000000500"
    by (simp add: float_val_def)
  with emitted_at_epoch_millis [OF h1 h2 h3 h4]
  have "\<exists>m. ?l = render_json m \<and> emitted_at (trace m) = 1700000000500"
    by (auto simp: t j)
  with h1 v show ?thesis
    by (simp add: init_world_def)
qed

end
